theory Spec2Isabelle
  imports Complex_Main "HOL-Library.AList"
begin

section \<open>Executor factory modules (python/tvm/relay/backend/executor_factory.py)\<close>

text \<open>
  The file defines an abstract class \<open>ExecutorFactoryModule\<close> and two concrete
  classes, \<open>AOTExecutorFactoryModule\<close> and \<open>GraphExecutorFactoryModule\<close>. Both
  constructors check one argument with \<open>assert isinstance\<close>, walk \<open>params.items()\<close>
  building a list \<open>args\<close> of alternating keys and \<open>ndarray.array\<close> conversions, and
  then assign the instance attributes. The graph constructor also resolves
  \<open>tvm.graph_executor_factory.create\<close> in the global function registry and calls it.

  Python values are dynamically typed, so every argument is a \<open>pyval\<close>. An instance is
  its class together with its attribute dictionary, in assignment order. Everything the
  constructors call outside this file (\<open>ndarray.array\<close>, \<open>get_global_func\<close>, the
  function it returns, the live module's \<open>__getitem__\<close>) is a field of a \<open>runtime\<close>
  record, and every such call is logged as an \<open>event\<close>, so that theorems can speak about
  which external calls are made, in which order and with which arguments.

  Values are immutable in the model: the identity of a Python object is the equality of
  its value. \<open>assert\<close> statements are executed (the interpreter does not run with \<open>-O\<close>).
\<close>

subsection \<open>Values, errors, events\<close>

datatype pyval =
    PyNone
  | PyBool bool
  | PyInt int
  | PyFloat real
  | PyStr string
  | PyList "pyval list"
  | PyDict "(pyval \<times> pyval) list"  \<comment> \<open>a dict, as its items in iteration order\<close>
  | PrimFunc nat                    \<comment> \<open>an instance of \<open>tir.PrimFunc\<close>\<close>
  | NDArray pyval                   \<comment> \<open>a runtime array, tagged with what it was built from\<close>
  | Handle nat                      \<comment> \<open>any other object: IRModule, Target, runtime Module, ...\<close>
  | PyMethod string                 \<comment> \<open>a method of the instance's class, looked up by name\<close>

datatype error =
    AssertionError
  | AttributeError string
  | NotImplementedError
  | RuntimeError string             \<comment> \<open>whatever the external runtime raises\<close>

datatype event =
    GetGlobalFunc string            \<comment> \<open>\<open>get_global_func(name)\<close>\<close>
  | ArrayConv pyval                 \<comment> \<open>\<open>ndarray.array(v)\<close>\<close>
  | Call string "pyval list"        \<comment> \<open>a call of the function resolved under the name\<close>
  | ModuleGetItem pyval pyval       \<comment> \<open>\<open>module.__getitem__(item)\<close>\<close>

record runtime =
  ndarray_array :: "pyval \<Rightarrow> error + pyval"
  get_global_func :: "string \<Rightarrow> error + (pyval list \<Rightarrow> error + pyval)"
  module_getitem :: "pyval \<Rightarrow> pyval \<Rightarrow> error + pyval"

subsection \<open>Classes, instances, attribute lookup\<close>

datatype pyclass =
    ExecutorFactoryModule
  | AOTExecutorFactoryModule
  | GraphExecutorFactoryModule

record pyobject =
  obj_class :: pyclass
  obj_dict :: "(string \<times> pyval) list"

text \<open>The names each class body defines with \<open>def\<close>, in source order.\<close>

fun class_defs :: "pyclass \<Rightarrow> string list" where
  "class_defs ExecutorFactoryModule = [''get_internal_repr'', ''get_params'', ''get_lib'']"
| "class_defs AOTExecutorFactoryModule =
     [''__init__'', ''get_params'', ''get_internal_repr'', ''get_lib'']"
| "class_defs GraphExecutorFactoryModule =
     [''__init__'', ''export_library'', ''save_executor_config'', ''get_params'',
      ''get_graph_json'', ''get_internal_repr'', ''get_lib'', ''__getitem__'']"

text \<open>The method resolution order: the class, then its base.\<close>

fun mro :: "pyclass \<Rightarrow> pyclass list" where
  "mro ExecutorFactoryModule = [ExecutorFactoryModule]"
| "mro c = [c, ExecutorFactoryModule]"

definition new_object :: "pyclass \<Rightarrow> pyobject" where
  "new_object c = \<lparr>obj_class = c, obj_dict = []\<rparr>"

definition setattr :: "pyobject \<Rightarrow> string \<Rightarrow> pyval \<Rightarrow> pyobject" where
  "setattr self name v = self\<lparr>obj_dict := AList.update name v (obj_dict self)\<rparr>"

text \<open>
  \<open>self.name\<close>: the instance dictionary first, then the classes of the resolution order;
  no class of this file defines \<open>__getattr__\<close>, so a name found in neither raises
  \<open>AttributeError\<close>. (The attributes every Python object inherits from \<open>object\<close> are
  left out: the code reads none of them.)
\<close>

definition getattr :: "pyobject \<Rightarrow> string \<Rightarrow> error + pyval" where
  "getattr self name =
     (case map_of (obj_dict self) name of
        Some v \<Rightarrow> Inr v
      | None \<Rightarrow>
          if name \<in> set (concat (map class_defs (mro (obj_class self))))
          then Inr (PyMethod name)
          else Inl (AttributeError name))"

subsection \<open>The checks and the loop shared by both constructors\<close>

text \<open>\<open>isinstance(runner_function, tir.PrimFunc)\<close>\<close>

fun isinstance_PrimFunc :: "pyval \<Rightarrow> bool" where
  "isinstance_PrimFunc (PrimFunc _) = True"
| "isinstance_PrimFunc _ = False"

text \<open>
  \<open>isinstance(graph_str, string_types)\<close>. Modelled from the spec: \<open>string_types\<close> is
  imported from \<open>_ffi.base\<close>, which is not part of the source given; the spec calls the
  check a string-type check ("must be string-typed").
\<close>

fun isinstance_string_types :: "pyval \<Rightarrow> bool" where
  "isinstance_string_types (PyStr _) = True"
| "isinstance_string_types _ = False"

text \<open>\<open>params.items()\<close>: the items of a dict; any other value of the model has no \<open>items\<close>.\<close>

fun items :: "pyval \<Rightarrow> error + (pyval \<times> pyval) list" where
  "items (PyDict kvs) = Inr kvs"
| "items _ = Inl (AttributeError ''items'')"

text \<open>
  The loop
  \<^verbatim>\<open>
  for k, v in params.items():
      args.append(k)
      args.append(ndarray.array(v))
  \<close>
  with \<open>args\<close> as accumulator. It stops at the first conversion that raises.
\<close>

fun flatten_loop ::
  "runtime \<Rightarrow> (pyval \<times> pyval) list \<Rightarrow> pyval list \<Rightarrow> event list \<times> (error + pyval list)" where
  "flatten_loop rt [] args = ([], Inr args)"
| "flatten_loop rt ((k, v) # kvs) args =
     (case ndarray_array rt v of
        Inl e \<Rightarrow> ([ArrayConv v], Inl e)
      | Inr a \<Rightarrow>
          (case flatten_loop rt kvs (args @ [k, a]) of
             (tr, r) \<Rightarrow> (ArrayConv v # tr, r)))"

subsection \<open>AOTExecutorFactoryModule\<close>

definition aot_init ::
  "runtime \<Rightarrow> pyval \<Rightarrow> pyval \<Rightarrow> pyval \<Rightarrow> pyval \<Rightarrow> pyval \<Rightarrow> pyval
     \<Rightarrow> event list \<times> (error + pyobject)" where
  "aot_init rt ir_mod target runner_function libmod libmod_name params =
     (if \<not> isinstance_PrimFunc runner_function then ([], Inl AssertionError)
      else
        case items params of
          Inl e \<Rightarrow> ([], Inl e)
        | Inr kvs \<Rightarrow>
            (case flatten_loop rt kvs [] of
               (tr, Inl e) \<Rightarrow> (tr, Inl e)
             | (tr, Inr args) \<Rightarrow>
                 let self = new_object AOTExecutorFactoryModule;
                     self = setattr self ''ir_mod'' ir_mod;
                     self = setattr self ''target'' target;
                     self = setattr self ''runner_func'' runner_function;
                     self = setattr self ''lib'' libmod;
                     self = setattr self ''libmod_name'' libmod_name;
                     self = setattr self ''params'' params;
                     self = setattr self ''iter_cnt'' (PyInt 0)
                 in (tr, Inr self)))"

definition aot_get_params :: "pyobject \<Rightarrow> error + pyval" where
  "aot_get_params self = getattr self ''params''"

definition aot_get_internal_repr :: "pyobject \<Rightarrow> error + pyval" where
  "aot_get_internal_repr self = getattr self ''runner_func''"

definition aot_get_lib :: "pyobject \<Rightarrow> error + pyval" where
  "aot_get_lib self = getattr self ''lib''"

subsection \<open>GraphExecutorFactoryModule\<close>

definition create_name :: string where
  "create_name = ''tvm.graph_executor_factory.create''"

definition graph_init ::
  "runtime \<Rightarrow> pyval \<Rightarrow> pyval \<Rightarrow> pyval \<Rightarrow> pyval \<Rightarrow> pyval \<Rightarrow> pyval
     \<Rightarrow> event list \<times> (error + pyobject)" where
  "graph_init rt ir_mod target graph_str libmod libmod_name params =
     (if \<not> isinstance_string_types graph_str then ([], Inl AssertionError)
      else
        case get_global_func rt create_name of
          Inl e \<Rightarrow> ([GetGlobalFunc create_name], Inl e)
        | Inr fcreate \<Rightarrow>
            (case items params of
               Inl e \<Rightarrow> ([GetGlobalFunc create_name], Inl e)
             | Inr kvs \<Rightarrow>
                 (case flatten_loop rt kvs [] of
                    (tr, Inl e) \<Rightarrow> (GetGlobalFunc create_name # tr, Inl e)
                  | (tr, Inr args) \<Rightarrow>
                      let self = new_object GraphExecutorFactoryModule;
                          self = setattr self ''ir_mod'' ir_mod;
                          self = setattr self ''target'' target;
                          call = [graph_str, libmod, libmod_name] @ args
                      in
                        (case fcreate call of
                           Inl e \<Rightarrow>
                             (GetGlobalFunc create_name # tr @ [Call create_name call], Inl e)
                         | Inr m \<Rightarrow>
                             let self = setattr self ''module'' m;
                                 self = setattr self ''graph'' graph_str;
                                 self = setattr self ''lib'' libmod;
                                 self = setattr self ''libmod_name'' libmod_name;
                                 self = setattr self ''params'' params;
                                 self = setattr self ''iter_cnt'' (PyInt 0)
                             in (GetGlobalFunc create_name # tr @ [Call create_name call],
                                 Inr self)))))"

definition graph_save_executor_config :: "pyobject \<Rightarrow> error + pyval" where
  "graph_save_executor_config self = getattr self ''graph''"

definition graph_get_params :: "pyobject \<Rightarrow> error + pyval" where
  "graph_get_params self = getattr self ''params''"

definition graph_get_graph_json :: "pyobject \<Rightarrow> error + pyval" where
  "graph_get_graph_json self = getattr self ''internal_repr''"

definition graph_get_internal_repr :: "pyobject \<Rightarrow> error + pyval" where
  "graph_get_internal_repr self = getattr self ''graph''"

definition graph_get_lib :: "pyobject \<Rightarrow> error + pyval" where
  "graph_get_lib self = getattr self ''lib''"

text \<open>\<open>self.module.__getitem__(item)\<close>: the attribute is read first, then the module is asked.\<close>

definition graph_getitem :: "runtime \<Rightarrow> pyobject \<Rightarrow> pyval \<Rightarrow> event list \<times> (error + pyval)" where
  "graph_getitem rt self item =
     (case getattr self ''module'' of
        Inl e \<Rightarrow> ([], Inl e)
      | Inr m \<Rightarrow> ([ModuleGetItem m item], module_getitem rt m item))"

subsection \<open>Reading the log of external calls\<close>

fun is_Call :: "event \<Rightarrow> bool" where
  "is_Call (Call _ _) = True"
| "is_Call _ = False"

fun is_ArrayConv :: "event \<Rightarrow> bool" where
  "is_ArrayConv (ArrayConv _) = True"
| "is_ArrayConv _ = False"

text \<open>
  The alternating sequence of the specification, name1, value1, name2, value2, ..., written
  from its words and not from the loop: \<open>flatten_loop\<close> is compared with it below.
\<close>

fun alternating :: "pyval list \<Rightarrow> pyval list \<Rightarrow> pyval list" where
  "alternating (k # ks) (v # vs) = k # v # alternating ks vs"
| "alternating _ _ = []"

text \<open>\<open>cs\<close> are the runtime arrays that \<open>ndarray.array\<close> returns for the values of \<open>kvs\<close>, in order.\<close>

definition converted :: "runtime \<Rightarrow> (pyval \<times> pyval) list \<Rightarrow> pyval list \<Rightarrow> bool" where
  "converted rt kvs cs = list_all2 (\<lambda>kv c. ndarray_array rt (snd kv) = Inr c) kvs cs"

text \<open>The attribute names each constructor assigns, in assignment order.\<close>

definition aot_attrs :: "string list" where
  "aot_attrs =
     [''ir_mod'', ''target'', ''runner_func'', ''lib'', ''libmod_name'', ''params'', ''iter_cnt'']"

definition graph_attrs :: "string list" where
  "graph_attrs =
     [''ir_mod'', ''target'', ''module'', ''graph'', ''lib'', ''libmod_name'', ''params'',
      ''iter_cnt'']"

text \<open>An object retains a value when one of its attributes holds it.\<close>

definition retains :: "pyobject \<Rightarrow> pyval \<Rightarrow> bool" where
  "retains self v = (v \<in> set (map snd (obj_dict self)))"

subsection \<open>A stub runtime and the scenario of the specification\<close>

text \<open>
  The scenario: \<open>graph_str = '{"nodes":[]}'\<close>, \<open>params = {"w": [1.0, 2.0]}\<close>, a stub library
  and the module name \<open>"lib0"\<close>. The stub runtime wraps every value into an array, registers
  one create function, which returns the module \<open>Handle 7\<close>, and gives that module the one
  entry point \<open>"default"\<close>.
\<close>

definition stub_create :: "pyval list \<Rightarrow> error + pyval" where
  "stub_create = (\<lambda>args. Inr (Handle 7))"

definition stub_runtime :: runtime where
  "stub_runtime =
     \<lparr>ndarray_array = (\<lambda>v. Inr (NDArray v)),
      get_global_func =
        (\<lambda>name. if name = create_name then Inr stub_create
                 else Inl (RuntimeError name)),
      module_getitem =
        (\<lambda>m item. if m = Handle 7 \<and> item = PyStr ''default'' then Inr (Handle 8)
                   else Inl (AttributeError ''unknown''))\<rparr>"

definition graph_json :: string where
  \<open>graph_json = ''{"nodes":[]}''\<close>

definition w_params :: pyval where
  "w_params = PyDict [(PyStr ''w'', PyList [PyFloat 1, PyFloat 2])]"

definition stub_aot :: pyobject where
  "stub_aot =
     \<lparr>obj_class = AOTExecutorFactoryModule,
      obj_dict = [(''ir_mod'', Handle 11), (''target'', Handle 12), (''runner_func'', PrimFunc 5),
                  (''lib'', Handle 13), (''libmod_name'', PyStr ''lib0''), (''params'', w_params),
                  (''iter_cnt'', PyInt 0)]\<rparr>"

definition stub_graph :: pyobject where
  "stub_graph =
     \<lparr>obj_class = GraphExecutorFactoryModule,
      obj_dict = [(''ir_mod'', Handle 11), (''target'', Handle 12), (''module'', Handle 7),
                  (''graph'', PyStr graph_json), (''lib'', Handle 13),
                  (''libmod_name'', PyStr ''lib0''), (''params'', w_params),
                  (''iter_cnt'', PyInt 0)]\<rparr>"

section \<open>Properties\<close>

subsection \<open>The loop\<close>

lemma flatten_loop_trace:
  "flatten_loop rt kvs acc = (tr, Inr args) \<Longrightarrow> tr = map (ArrayConv \<circ> snd) kvs"
  by (induction kvs arbitrary: acc tr) (auto split: sum.splits prod.splits)

lemma flatten_loop_args:
  "flatten_loop rt kvs acc = (tr, Inr args) \<Longrightarrow>
     \<exists>cs. converted rt kvs cs \<and> args = acc @ alternating (map fst kvs) cs"
proof (induction kvs arbitrary: acc tr)
  case Nil
  then show ?case by (simp add: converted_def)
next
  case (Cons kv kvs)
  obtain k v where kv: "kv = (k, v)" by (cases kv)
  from Cons.prems kv obtain a tr' where
    a: "ndarray_array rt v = Inr a" and
    rest: "flatten_loop rt kvs (acc @ [k, a]) = (tr', Inr args)"
    by (auto split: sum.splits prod.splits)
  from Cons.IH [OF rest] obtain cs where
    cs: "converted rt kvs cs" "args = (acc @ [k, a]) @ alternating (map fst kvs) cs"
    by blast
  have "converted rt (kv # kvs) (a # cs)"
    using cs(1) a kv by (simp add: converted_def)
  moreover have "args = acc @ alternating (map fst (kv # kvs)) (a # cs)"
    using cs(2) kv by simp
  ultimately show ?case by blast
qed

lemma flatten_loop_converted:
  "converted rt kvs cs \<Longrightarrow>
     flatten_loop rt kvs acc =
       (map (ArrayConv \<circ> snd) kvs, Inr (acc @ alternating (map fst kvs) cs))"
  unfolding converted_def
proof (induction kvs cs arbitrary: acc rule: list_all2_induct)
  case Nil
  then show ?case by simp
next
  case (Cons kv kvs c cs)
  then show ?case by (cases kv) simp
qed

lemma flatten_loop_events: "list_all is_ArrayConv (fst (flatten_loop rt kvs acc))"
proof (induction kvs arbitrary: acc)
  case Nil
  then show ?case by simp
next
  case (Cons kv kvs)
  obtain k v where kv: "kv = (k, v)" by (cases kv)
  show ?case
  proof (cases "ndarray_array rt v")
    case (Inl e)
    with kv show ?thesis by simp
  next
    case (Inr a)
    obtain tr r where rest: "flatten_loop rt kvs (acc @ [k, a]) = (tr, r)"
      by (cases "flatten_loop rt kvs (acc @ [k, a])")
    from Cons.IH [of "acc @ [k, a]"] rest have "list_all is_ArrayConv tr" by simp
    with kv Inr rest show ?thesis by simp
  qed
qed

subsection \<open>What a successful construction has done\<close>

lemma aot_init_success:
  assumes "aot_init rt ir_mod target runner libmod name params = (tr, Inr self)"
  shows "\<exists>kvs args. isinstance_PrimFunc runner \<and> items params = Inr kvs \<and>
           flatten_loop rt kvs [] = (tr, Inr args) \<and>
           self = \<lparr>obj_class = AOTExecutorFactoryModule,
                    obj_dict = [(''ir_mod'', ir_mod), (''target'', target),
                                (''runner_func'', runner), (''lib'', libmod),
                                (''libmod_name'', name), (''params'', params),
                                (''iter_cnt'', PyInt 0)]\<rparr>"
  using assms
  by (auto simp: aot_init_def setattr_def new_object_def Let_def
           split: if_splits sum.splits prod.splits)

lemma graph_init_success:
  assumes "graph_init rt ir_mod target graph_str libmod name params = (tr, Inr self)"
  shows "\<exists>fcreate kvs tr' args m.
           isinstance_string_types graph_str \<and>
           get_global_func rt create_name = Inr fcreate \<and>
           items params = Inr kvs \<and>
           flatten_loop rt kvs [] = (tr', Inr args) \<and>
           fcreate ([graph_str, libmod, name] @ args) = Inr m \<and>
           tr = GetGlobalFunc create_name # tr' @
                  [Call create_name ([graph_str, libmod, name] @ args)] \<and>
           self = \<lparr>obj_class = GraphExecutorFactoryModule,
                    obj_dict = [(''ir_mod'', ir_mod), (''target'', target), (''module'', m),
                                (''graph'', graph_str), (''lib'', libmod),
                                (''libmod_name'', name), (''params'', params),
                                (''iter_cnt'', PyInt 0)]\<rparr>"
  using assms
  by (auto simp: graph_init_def setattr_def new_object_def Let_def
           split: if_splits sum.splits prod.splits)

lemma stub_aot_init:
  "aot_init stub_runtime (Handle 11) (Handle 12) (PrimFunc 5) (Handle 13) (PyStr ''lib0'') w_params
     = ([ArrayConv (PyList [PyFloat 1, PyFloat 2])], Inr stub_aot)"
  by (simp add: aot_init_def stub_runtime_def w_params_def stub_aot_def setattr_def
        new_object_def)

lemma stub_graph_init:
  "graph_init stub_runtime (Handle 11) (Handle 12) (PyStr graph_json) (Handle 13) (PyStr ''lib0'')
       w_params
     = ([GetGlobalFunc create_name, ArrayConv (PyList [PyFloat 1, PyFloat 2]),
         Call create_name [PyStr graph_json, Handle 13, PyStr ''lib0'', PyStr ''w'',
                           NDArray (PyList [PyFloat 1, PyFloat 2])]],
        Inr stub_graph)"
  by (simp add: graph_init_def stub_runtime_def stub_create_def w_params_def stub_graph_def
        setattr_def new_object_def)

subsection \<open>The accessors\<close>

text \<open>
  Claim C1. For every parameter mapping \<open>P\<close>, \<open>get_params()\<close> on a factory constructed
  with \<open>P\<close> returns exactly \<open>P\<close>, for the ahead-of-time class and for the graph class.
\<close>

theorem get_params_returns_supplied:
  "(snd (aot_init rt ir_mod target runner libmod name (PyDict P)) = Inr a
      \<longrightarrow> aot_get_params a = Inr (PyDict P)) \<and>
   (snd (graph_init rt ir_mod' target' graph_str libmod' name' (PyDict P)) = Inr g
      \<longrightarrow> graph_get_params g = Inr (PyDict P))"
proof (intro conjI impI)
  assume "snd (aot_init rt ir_mod target runner libmod name (PyDict P)) = Inr a"
  then obtain tr where "aot_init rt ir_mod target runner libmod name (PyDict P) = (tr, Inr a)"
    by (cases "aot_init rt ir_mod target runner libmod name (PyDict P)") simp
  from aot_init_success [OF this] show "aot_get_params a = Inr (PyDict P)"
    by (auto simp: aot_get_params_def getattr_def)
next
  assume "snd (graph_init rt ir_mod' target' graph_str libmod' name' (PyDict P)) = Inr g"
  then obtain tr where
    "graph_init rt ir_mod' target' graph_str libmod' name' (PyDict P) = (tr, Inr g)"
    by (cases "graph_init rt ir_mod' target' graph_str libmod' name' (PyDict P)") simp
  from graph_init_success [OF this] show "graph_get_params g = Inr (PyDict P)"
    by (auto simp: graph_get_params_def getattr_def)
qed

theorem get_params_returns_supplied_witness:
  "snd (aot_init stub_runtime (Handle 11) (Handle 12) (PrimFunc 5) (Handle 13) (PyStr ''lib0'')
          (PyDict [(PyStr ''w'', PyList [PyFloat 1, PyFloat 2])])) = Inr stub_aot \<and>
   aot_get_params stub_aot = Inr (PyDict [(PyStr ''w'', PyList [PyFloat 1, PyFloat 2])]) \<and>
   snd (graph_init stub_runtime (Handle 11) (Handle 12) (PyStr graph_json) (Handle 13)
          (PyStr ''lib0'') (PyDict [(PyStr ''w'', PyList [PyFloat 1, PyFloat 2])]))
     = Inr stub_graph \<and>
   graph_get_params stub_graph = Inr (PyDict [(PyStr ''w'', PyList [PyFloat 1, PyFloat 2])])"
  using get_params_returns_supplied
    [of stub_runtime "Handle 11" "Handle 12" "PrimFunc 5" "Handle 13" "PyStr ''lib0''"
        "[(PyStr ''w'', PyList [PyFloat 1, PyFloat 2])]" stub_aot
        "Handle 11" "Handle 12" "PyStr graph_json" "Handle 13" "PyStr ''lib0''" stub_graph]
    stub_aot_init stub_graph_init
  by (simp add: w_params_def)

text \<open>
  Claim C2. On a graph factory constructed with the graph description \<open>graph_str\<close>, both
  \<open>get_internal_repr()\<close> and \<open>save_executor_config()\<close> return \<open>graph_str\<close> unchanged.
\<close>

theorem graph_repr_round_trip:
  "snd (graph_init rt ir_mod target graph_str libmod name params) = Inr self \<Longrightarrow>
     graph_get_internal_repr self = Inr graph_str \<and>
     graph_save_executor_config self = Inr graph_str"
proof -
  assume "snd (graph_init rt ir_mod target graph_str libmod name params) = Inr self"
  then obtain tr where
    "graph_init rt ir_mod target graph_str libmod name params = (tr, Inr self)"
    by (cases "graph_init rt ir_mod target graph_str libmod name params") simp
  from graph_init_success [OF this] show ?thesis
    by (auto simp: graph_get_internal_repr_def graph_save_executor_config_def getattr_def)
qed

theorem graph_repr_round_trip_witness:
  "snd (graph_init stub_runtime (Handle 11) (Handle 12) (PyStr graph_json) (Handle 13)
          (PyStr ''lib0'') w_params) = Inr stub_graph \<and>
   graph_get_internal_repr stub_graph = Inr (PyStr graph_json) \<and>
   graph_save_executor_config stub_graph = Inr (PyStr graph_json)"
  using graph_repr_round_trip
    [of stub_runtime "Handle 11" "Handle 12" "PyStr graph_json" "Handle 13" "PyStr ''lib0''"
        w_params stub_graph]
    stub_graph_init
  by simp

text \<open>
  \<open>get_graph_json\<close> reads \<open>self.internal_repr\<close>. The constructor assigns no attribute of
  that name and no class defines one, so on every constructed graph factory the read raises
  \<open>AttributeError\<close>.
\<close>

lemma graph_get_graph_json_raises:
  "snd (graph_init rt ir_mod target graph_str libmod name params) = Inr self \<Longrightarrow>
     graph_get_graph_json self = Inl (AttributeError ''internal_repr'')"
proof -
  assume "snd (graph_init rt ir_mod target graph_str libmod name params) = Inr self"
  then obtain tr where
    "graph_init rt ir_mod target graph_str libmod name params = (tr, Inr self)"
    by (cases "graph_init rt ir_mod target graph_str libmod name params") simp
  from graph_init_success [OF this] show ?thesis
    by (auto simp: graph_get_graph_json_def getattr_def)
qed

text \<open>
  Claim C3 says that \<open>get_graph_json()\<close> returns the graph description. In the scenario
  of the specification the construction succeeds, \<open>get_graph_json()\<close> raises
  \<open>AttributeError\<close>, and \<open>get_internal_repr()\<close> of the same object returns the graph
  description.
\<close>

theorem graph_get_graph_json_stub:
  "snd (graph_init stub_runtime (Handle 11) (Handle 12) (PyStr graph_json) (Handle 13)
          (PyStr ''lib0'') w_params) = Inr stub_graph \<and>
   graph_get_graph_json stub_graph = Inl (AttributeError ''internal_repr'') \<and>
   graph_get_internal_repr stub_graph = Inr (PyStr graph_json)"
  by (simp add: stub_graph_init graph_get_graph_json_def graph_get_internal_repr_def
        getattr_def stub_graph_def)

subsection \<open>The checks of the constructors\<close>

text \<open>
  Claim C4. Whatever the other arguments are, constructing an ahead-of-time factory with a
  runner function that is not a \<open>tir.PrimFunc\<close> raises \<open>AssertionError\<close>: no object is
  produced, and no external call has been made.
\<close>

theorem aot_init_rejects_non_PrimFunc:
  "\<not> isinstance_PrimFunc runner \<Longrightarrow>
     aot_init rt ir_mod target runner libmod name params = ([], Inl AssertionError)"
  by (simp add: aot_init_def)

theorem aot_init_rejects_non_PrimFunc_witness:
  "\<not> isinstance_PrimFunc (PyStr ''main'') \<and>
   aot_init stub_runtime (Handle 11) (Handle 12) (PyStr ''main'') (Handle 13) (PyStr ''lib0'')
       w_params = ([], Inl AssertionError)"
  using aot_init_rejects_non_PrimFunc
    [of "PyStr ''main''" stub_runtime "Handle 11" "Handle 12" "Handle 13" "PyStr ''lib0''" w_params]
  by simp

text \<open>
  Claim C5. Whatever the other arguments are, constructing a graph factory with a graph
  description that is not a string raises \<open>AssertionError\<close>: no object is produced, and no
  external call has been made.
\<close>

theorem graph_init_rejects_non_string:
  "\<not> isinstance_string_types graph_str \<Longrightarrow>
     graph_init rt ir_mod target graph_str libmod name params = ([], Inl AssertionError)"
  by (simp add: graph_init_def)

theorem graph_init_rejects_non_string_witness:
  "\<not> isinstance_string_types (PyDict [(PyStr ''nodes'', PyList [])]) \<and>
   graph_init stub_runtime (Handle 11) (Handle 12) (PyDict [(PyStr ''nodes'', PyList [])])
       (Handle 13) (PyStr ''lib0'') w_params = ([], Inl AssertionError)"
  using graph_init_rejects_non_string
    [of "PyDict [(PyStr ''nodes'', PyList [])]" stub_runtime "Handle 11" "Handle 12" "Handle 13"
        "PyStr ''lib0''" w_params]
  by simp

subsection \<open>External calls and what is kept\<close>

text \<open>
  Claim C6. In a graph factory construction with graph description \<open>graph_str\<close>, library
  \<open>libmod\<close>, module name \<open>name\<close> and parameters \<open>P\<close>, where the create function is
  resolved under \<open>tvm.graph_executor_factory.create\<close> and \<open>cs\<close> are the arrays that
  \<open>ndarray.array\<close> returns for the values of \<open>P\<close>, that function is called exactly once,
  as the last external call, with \<open>graph_str\<close>, \<open>libmod\<close>, \<open>name\<close> followed by the
  alternating sequence of the keys of \<open>P\<close> and \<open>cs\<close>; this holds whether the call
  then succeeds or raises.
\<close>

theorem graph_init_calls_create_once:
  assumes "isinstance_string_types graph_str"
    and "get_global_func rt create_name = Inr fcreate"
    and "converted rt P cs"
  shows "fst (graph_init rt ir_mod target graph_str libmod name (PyDict P)) =
           GetGlobalFunc create_name # map (ArrayConv \<circ> snd) P @
             [Call create_name ([graph_str, libmod, name] @ alternating (map fst P) cs)] \<and>
         filter is_Call (fst (graph_init rt ir_mod target graph_str libmod name (PyDict P))) =
           [Call create_name ([graph_str, libmod, name] @ alternating (map fst P) cs)]"
proof -
  let ?call = "[graph_str, libmod, name] @ alternating (map fst P) cs"
  have loop: "flatten_loop rt P [] =
                (map (ArrayConv \<circ> snd) P, Inr (alternating (map fst P) cs))"
    using flatten_loop_converted [OF assms(3), of "[]"] by simp
  have tr: "fst (graph_init rt ir_mod target graph_str libmod name (PyDict P)) =
              GetGlobalFunc create_name # map (ArrayConv \<circ> snd) P @
                [Call create_name ?call]"
    using assms(1,2) loop
    by (cases "fcreate ?call") (simp_all add: graph_init_def Let_def)
  have "filter is_Call (map (ArrayConv \<circ> snd) P) = []"
    by (induction P) simp_all
  with tr show ?thesis by simp
qed

theorem graph_init_calls_create_once_witness:
  "isinstance_string_types (PyStr graph_json) \<and>
   get_global_func stub_runtime create_name = Inr stub_create \<and>
   converted stub_runtime [(PyStr ''w'', PyList [PyFloat 1, PyFloat 2])]
     [NDArray (PyList [PyFloat 1, PyFloat 2])] \<and>
   filter is_Call
     (fst (graph_init stub_runtime (Handle 11) (Handle 12) (PyStr graph_json) (Handle 13)
             (PyStr ''lib0'') (PyDict [(PyStr ''w'', PyList [PyFloat 1, PyFloat 2])]))) =
     [Call create_name [PyStr graph_json, Handle 13, PyStr ''lib0'', PyStr ''w'',
                        NDArray (PyList [PyFloat 1, PyFloat 2])]]"
proof -
  have h1: "isinstance_string_types (PyStr graph_json)" by simp
  have h2: "get_global_func stub_runtime create_name = Inr stub_create"
    by (simp add: stub_runtime_def)
  have h3: "converted stub_runtime [(PyStr ''w'', PyList [PyFloat 1, PyFloat 2])]
              [NDArray (PyList [PyFloat 1, PyFloat 2])]"
    by (simp add: converted_def stub_runtime_def)
  show ?thesis
    using h1 h2 h3
      graph_init_calls_create_once [OF h1 h2 h3, of "Handle 11" "Handle 12" "Handle 13" "PyStr ''lib0''"]
    by simp
qed

text \<open>
  Claim C7 says that the ahead-of-time factory retains the flattened list. In the scenario
  of the specification the construction succeeds, the loop builds the list
  \<open>["w", array([1.0, 2.0])]\<close>, and no attribute of the constructed object holds it:
  \<open>args\<close> is a local variable of \<open>__init__\<close>.
\<close>

theorem aot_init_args_not_retained_counterexample:
  "snd (aot_init stub_runtime (Handle 11) (Handle 12) (PrimFunc 5) (Handle 13) (PyStr ''lib0'')
          (PyDict [(PyStr ''w'', PyList [PyFloat 1, PyFloat 2])])) = Inr stub_aot \<and>
   snd (flatten_loop stub_runtime [(PyStr ''w'', PyList [PyFloat 1, PyFloat 2])] []) =
     Inr [PyStr ''w'', NDArray (PyList [PyFloat 1, PyFloat 2])] \<and>
   \<not> retains stub_aot (PyList [PyStr ''w'', NDArray (PyList [PyFloat 1, PyFloat 2])])"
  using stub_aot_init
  by (simp add: w_params_def retains_def stub_aot_def stub_runtime_def)

text \<open>
  Claim C7, amended. In every successful ahead-of-time construction the loop builds the
  alternating list of the keys and of the arrays \<open>ndarray.array\<close> returns for the values;
  the only external calls are these conversions, one for each parameter in order, so the
  registry is not consulted and no create function is called; and the constructed object has
  exactly the seven attributes \<open>ir_mod\<close>, \<open>target\<close>, \<open>runner_func\<close>, \<open>lib\<close>,
  \<open>libmod_name\<close>, \<open>params\<close>, \<open>iter_cnt\<close>, holding the arguments and 0: the list is
  not among them.
\<close>

theorem aot_init_flattens_and_discards:
  assumes "aot_init rt ir_mod target runner libmod name (PyDict P) = (tr, Inr self)"
  shows "(\<exists>cs. converted rt P cs \<and>
               flatten_loop rt P [] = (tr, Inr (alternating (map fst P) cs))) \<and>
         tr = map (ArrayConv \<circ> snd) P \<and>
         list_all is_ArrayConv tr \<and>
         self = \<lparr>obj_class = AOTExecutorFactoryModule,
                  obj_dict = [(''ir_mod'', ir_mod), (''target'', target),
                              (''runner_func'', runner), (''lib'', libmod),
                              (''libmod_name'', name), (''params'', PyDict P),
                              (''iter_cnt'', PyInt 0)]\<rparr>"
proof -
  from aot_init_success [OF assms] obtain kvs args where
    it: "items (PyDict P) = Inr kvs" and
    loop': "flatten_loop rt kvs [] = (tr, Inr args)" and
    self: "self = \<lparr>obj_class = AOTExecutorFactoryModule,
                    obj_dict = [(''ir_mod'', ir_mod), (''target'', target),
                                (''runner_func'', runner), (''lib'', libmod),
                                (''libmod_name'', name), (''params'', PyDict P),
                                (''iter_cnt'', PyInt 0)]\<rparr>"
    by (elim exE conjE)
  from it have "kvs = P" by simp
  with loop' have loop: "flatten_loop rt P [] = (tr, Inr args)" by simp
  from flatten_loop_args [OF loop] obtain cs where
    cs: "converted rt P cs" and args: "args = [] @ alternating (map fst P) cs"
    by (elim exE conjE)
  have built: "\<exists>cs. converted rt P cs \<and>
                    flatten_loop rt P [] = (tr, Inr (alternating (map fst P) cs))"
  proof (intro exI conjI)
    show "converted rt P cs" by (rule cs)
    show "flatten_loop rt P [] = (tr, Inr (alternating (map fst P) cs))"
      using loop args by simp
  qed
  have tr: "tr = map (ArrayConv \<circ> snd) P"
    by (rule flatten_loop_trace [OF loop])
  have ev: "list_all is_ArrayConv tr"
    using flatten_loop_events [of rt P "[]"] loop by simp
  show ?thesis
  proof (intro conjI)
    show "\<exists>cs. converted rt P cs \<and>
               flatten_loop rt P [] = (tr, Inr (alternating (map fst P) cs))"
      by (rule built)
    show "tr = map (ArrayConv \<circ> snd) P" by (rule tr)
    show "list_all is_ArrayConv tr" by (rule ev)
    show "self = \<lparr>obj_class = AOTExecutorFactoryModule,
                    obj_dict = [(''ir_mod'', ir_mod), (''target'', target),
                                (''runner_func'', runner), (''lib'', libmod),
                                (''libmod_name'', name), (''params'', PyDict P),
                                (''iter_cnt'', PyInt 0)]\<rparr>"
      by (rule self)
  qed
qed

theorem aot_init_flattens_and_discards_witness:
  "aot_init stub_runtime (Handle 11) (Handle 12) (PrimFunc 5) (Handle 13) (PyStr ''lib0'')
       (PyDict [(PyStr ''w'', PyList [PyFloat 1, PyFloat 2])])
     = ([ArrayConv (PyList [PyFloat 1, PyFloat 2])], Inr stub_aot) \<and>
   list_all is_ArrayConv [ArrayConv (PyList [PyFloat 1, PyFloat 2])] \<and>
   map fst (obj_dict stub_aot) = aot_attrs"
proof -
  have h: "aot_init stub_runtime (Handle 11) (Handle 12) (PrimFunc 5) (Handle 13)
             (PyStr ''lib0'') (PyDict [(PyStr ''w'', PyList [PyFloat 1, PyFloat 2])])
           = ([ArrayConv (PyList [PyFloat 1, PyFloat 2])], Inr stub_aot)"
    using stub_aot_init by (simp add: w_params_def)
  note t = aot_init_flattens_and_discards [OF h]
  from t have ev: "list_all is_ArrayConv [ArrayConv (PyList [PyFloat 1, PyFloat 2])]"
    by (elim conjE)
  from t have eq:
    "stub_aot =
       \<lparr>obj_class = AOTExecutorFactoryModule,
        obj_dict = [(''ir_mod'', Handle 11), (''target'', Handle 12),
                    (''runner_func'', PrimFunc 5), (''lib'', Handle 13),
                    (''libmod_name'', PyStr ''lib0''),
                    (''params'', PyDict [(PyStr ''w'', PyList [PyFloat 1, PyFloat 2])]),
                    (''iter_cnt'', PyInt 0)]\<rparr>"
    by (elim conjE)
  have attrs: "map fst (obj_dict stub_aot) = aot_attrs"
    by (subst eq) (simp add: aot_attrs_def)
  show ?thesis
  proof (intro conjI)
    show "aot_init stub_runtime (Handle 11) (Handle 12) (PrimFunc 5) (Handle 13)
            (PyStr ''lib0'') (PyDict [(PyStr ''w'', PyList [PyFloat 1, PyFloat 2])])
          = ([ArrayConv (PyList [PyFloat 1, PyFloat 2])], Inr stub_aot)"
      by (rule h)
    show "list_all is_ArrayConv [ArrayConv (PyList [PyFloat 1, PyFloat 2])]" by (rule ev)
    show "map fst (obj_dict stub_aot) = aot_attrs" by (rule attrs)
  qed
qed

text \<open>
  Claim C8. For both classes and all arguments, construction either raises an error, and the
  caller gets no object, or returns an object of the class with every attribute of the
  constructor assigned.
\<close>

theorem construction_all_or_nothing:
  "((\<exists>e. snd (aot_init rt ir_mod target runner libmod name params) = Inl e) \<or>
    (\<exists>self. snd (aot_init rt ir_mod target runner libmod name params) = Inr self \<and>
            obj_class self = AOTExecutorFactoryModule \<and>
            map fst (obj_dict self) = aot_attrs)) \<and>
   ((\<exists>e. snd (graph_init rt ir_mod' target' graph_str libmod' name' params') = Inl e) \<or>
    (\<exists>self. snd (graph_init rt ir_mod' target' graph_str libmod' name' params') = Inr self \<and>
            obj_class self = GraphExecutorFactoryModule \<and>
            map fst (obj_dict self) = graph_attrs))"
proof
  obtain tr r where a: "aot_init rt ir_mod target runner libmod name params = (tr, r)"
    by (cases "aot_init rt ir_mod target runner libmod name params")
  show "(\<exists>e. snd (aot_init rt ir_mod target runner libmod name params) = Inl e) \<or>
        (\<exists>self. snd (aot_init rt ir_mod target runner libmod name params) = Inr self \<and>
                obj_class self = AOTExecutorFactoryModule \<and>
                map fst (obj_dict self) = aot_attrs)"
  proof (cases r)
    case (Inl e)
    with a show ?thesis by simp
  next
    case (Inr self)
    with a aot_init_success [of rt ir_mod target runner libmod name params tr self]
    show ?thesis by (auto simp: aot_attrs_def)
  qed
next
  obtain tr r where g: "graph_init rt ir_mod' target' graph_str libmod' name' params' = (tr, r)"
    by (cases "graph_init rt ir_mod' target' graph_str libmod' name' params'")
  show "(\<exists>e. snd (graph_init rt ir_mod' target' graph_str libmod' name' params') = Inl e) \<or>
        (\<exists>self. snd (graph_init rt ir_mod' target' graph_str libmod' name' params') = Inr self \<and>
                obj_class self = GraphExecutorFactoryModule \<and>
                map fst (obj_dict self) = graph_attrs)"
  proof (cases r)
    case (Inl e)
    with g show ?thesis by simp
  next
    case (Inr self)
    with g graph_init_success [of rt ir_mod' target' graph_str libmod' name' params' tr self]
    show ?thesis by (auto simp: graph_attrs_def)
  qed
qed

text \<open>
  Claim C9. On every constructed graph factory, whose attribute \<open>module\<close> is the module
  \<open>m\<close> that the create call returned, \<open>factory[item]\<close> makes the one external call
  \<open>m.__getitem__(item)\<close> and its outcome, value or error, is that call's outcome unchanged.
\<close>

theorem graph_getitem_forwards:
  assumes "graph_init rt ir_mod target graph_str libmod name params = (tr, Inr self)"
  shows "\<exists>fcreate call m.
           get_global_func rt create_name = Inr fcreate \<and>
           last tr = Call create_name call \<and>
           fcreate call = Inr m \<and>
           getattr self ''module'' = Inr m \<and>
           (\<forall>item. graph_getitem rt self item =
                     ([ModuleGetItem m item], module_getitem rt m item))"
proof -
  from graph_init_success [OF assms] obtain fcreate kvs tr' args m where
    f: "get_global_func rt create_name = Inr fcreate" and
    m: "fcreate ([graph_str, libmod, name] @ args) = Inr m" and
    tr: "tr = GetGlobalFunc create_name # tr' @
                [Call create_name ([graph_str, libmod, name] @ args)]" and
    self: "self = \<lparr>obj_class = GraphExecutorFactoryModule,
                    obj_dict = [(''ir_mod'', ir_mod), (''target'', target), (''module'', m),
                                (''graph'', graph_str), (''lib'', libmod),
                                (''libmod_name'', name), (''params'', params),
                                (''iter_cnt'', PyInt 0)]\<rparr>"
    by (elim exE conjE)
  have l: "last tr = Call create_name ([graph_str, libmod, name] @ args)"
    using tr by simp
  have ga: "getattr self ''module'' = Inr m"
    using self by (simp add: getattr_def)
  have fw: "\<forall>item. graph_getitem rt self item =
                     ([ModuleGetItem m item], module_getitem rt m item)"
    using ga by (simp add: graph_getitem_def)
  show ?thesis
  proof (intro exI conjI)
    show "get_global_func rt create_name = Inr fcreate" by (rule f)
    show "last tr = Call create_name ([graph_str, libmod, name] @ args)" by (rule l)
    show "fcreate ([graph_str, libmod, name] @ args) = Inr m" by (rule m)
    show "getattr self ''module'' = Inr m" by (rule ga)
    show "\<forall>item. graph_getitem rt self item =
                   ([ModuleGetItem m item], module_getitem rt m item)"
      by (rule fw)
  qed
qed

theorem graph_getitem_forwards_witness:
  "graph_init stub_runtime (Handle 11) (Handle 12) (PyStr graph_json) (Handle 13)
       (PyStr ''lib0'') w_params
     = ([GetGlobalFunc create_name, ArrayConv (PyList [PyFloat 1, PyFloat 2]),
         Call create_name [PyStr graph_json, Handle 13, PyStr ''lib0'', PyStr ''w'',
                           NDArray (PyList [PyFloat 1, PyFloat 2])]],
        Inr stub_graph) \<and>
   graph_getitem stub_runtime stub_graph (PyStr ''default'') =
     ([ModuleGetItem (Handle 7) (PyStr ''default'')],
      module_getitem stub_runtime (Handle 7) (PyStr ''default'')) \<and>
   module_getitem stub_runtime (Handle 7) (PyStr ''default'') = Inr (Handle 8) \<and>
   graph_getitem stub_runtime stub_graph (PyStr ''missing'') =
     ([ModuleGetItem (Handle 7) (PyStr ''missing'')],
      module_getitem stub_runtime (Handle 7) (PyStr ''missing'')) \<and>
   module_getitem stub_runtime (Handle 7) (PyStr ''missing'') = Inl (AttributeError ''unknown'')"
proof -
  have ga: "getattr stub_graph ''module'' = Inr (Handle 7)"
    by (simp add: getattr_def stub_graph_def)
  from graph_getitem_forwards [OF stub_graph_init] ga
  have "\<forall>item. graph_getitem stub_runtime stub_graph item =
                 ([ModuleGetItem (Handle 7) item], module_getitem stub_runtime (Handle 7) item)"
    by auto
  then show ?thesis
    using stub_graph_init by (simp add: stub_runtime_def)
qed

text \<open>
  Claim C10. For both classes, what \<open>get_params()\<close> returns after a successful
  construction holds the values as supplied, in order, and not the arrays that
  \<open>ndarray.array\<close> built from them: whenever the conversions \<open>cs\<close> differ from the
  supplied values, the values returned differ from \<open>cs\<close>.
\<close>

theorem get_params_keeps_original_values:
  "(snd (aot_init rt ir_mod target runner libmod name (PyDict P)) = Inr a \<longrightarrow>
      (\<exists>Q. aot_get_params a = Inr (PyDict Q) \<and> map snd Q = map snd P \<and>
           (\<forall>cs. converted rt P cs \<and> cs \<noteq> map snd P \<longrightarrow> map snd Q \<noteq> cs))) \<and>
   (snd (graph_init rt ir_mod' target' graph_str libmod' name' (PyDict P)) = Inr g \<longrightarrow>
      (\<exists>Q. graph_get_params g = Inr (PyDict Q) \<and> map snd Q = map snd P \<and>
           (\<forall>cs. converted rt P cs \<and> cs \<noteq> map snd P \<longrightarrow> map snd Q \<noteq> cs)))"
proof (intro conjI impI)
  assume "snd (aot_init rt ir_mod target runner libmod name (PyDict P)) = Inr a"
  then obtain tr where "aot_init rt ir_mod target runner libmod name (PyDict P) = (tr, Inr a)"
    by (cases "aot_init rt ir_mod target runner libmod name (PyDict P)") simp
  from aot_init_success [OF this] have "aot_get_params a = Inr (PyDict P)"
    by (auto simp: aot_get_params_def getattr_def)
  then show "\<exists>Q. aot_get_params a = Inr (PyDict Q) \<and> map snd Q = map snd P \<and>
                 (\<forall>cs. converted rt P cs \<and> cs \<noteq> map snd P \<longrightarrow> map snd Q \<noteq> cs)"
    by auto
next
  assume "snd (graph_init rt ir_mod' target' graph_str libmod' name' (PyDict P)) = Inr g"
  then obtain tr where
    "graph_init rt ir_mod' target' graph_str libmod' name' (PyDict P) = (tr, Inr g)"
    by (cases "graph_init rt ir_mod' target' graph_str libmod' name' (PyDict P)") simp
  from graph_init_success [OF this] have "graph_get_params g = Inr (PyDict P)"
    by (auto simp: graph_get_params_def getattr_def)
  then show "\<exists>Q. graph_get_params g = Inr (PyDict Q) \<and> map snd Q = map snd P \<and>
                 (\<forall>cs. converted rt P cs \<and> cs \<noteq> map snd P \<longrightarrow> map snd Q \<noteq> cs)"
    by auto
qed

theorem get_params_keeps_original_values_witness:
  "snd (aot_init stub_runtime (Handle 11) (Handle 12) (PrimFunc 5) (Handle 13) (PyStr ''lib0'')
          (PyDict [(PyStr ''w'', PyList [PyFloat 1, PyFloat 2])])) = Inr stub_aot \<and>
   snd (graph_init stub_runtime (Handle 11) (Handle 12) (PyStr graph_json) (Handle 13)
          (PyStr ''lib0'') (PyDict [(PyStr ''w'', PyList [PyFloat 1, PyFloat 2])]))
     = Inr stub_graph \<and>
   converted stub_runtime [(PyStr ''w'', PyList [PyFloat 1, PyFloat 2])]
     [NDArray (PyList [PyFloat 1, PyFloat 2])] \<and>
   [NDArray (PyList [PyFloat 1, PyFloat 2])] \<noteq> [PyList [PyFloat 1, PyFloat 2]] \<and>
   aot_get_params stub_aot = Inr (PyDict [(PyStr ''w'', PyList [PyFloat 1, PyFloat 2])]) \<and>
   graph_get_params stub_graph = Inr (PyDict [(PyStr ''w'', PyList [PyFloat 1, PyFloat 2])])"
proof -
  have c: "converted stub_runtime [(PyStr ''w'', PyList [PyFloat 1, PyFloat 2])]
             [NDArray (PyList [PyFloat 1, PyFloat 2])]"
    by (simp add: converted_def stub_runtime_def)
  show ?thesis
    using get_params_keeps_original_values
      [of stub_runtime "Handle 11" "Handle 12" "PrimFunc 5" "Handle 13" "PyStr ''lib0''"
          "[(PyStr ''w'', PyList [PyFloat 1, PyFloat 2])]" stub_aot
          "Handle 11" "Handle 12" "PyStr graph_json" "Handle 13" "PyStr ''lib0''" stub_graph]
      stub_aot_init stub_graph_init c
    by (simp add: w_params_def aot_get_params_def graph_get_params_def getattr_def
          stub_aot_def stub_graph_def)
qed

end
